theory Spec2Isabelle
  imports Main "HOL-Library.Char_ord" "HOL-Library.List_Lexorder"
begin

section \<open>The schema checker \<^verbatim>\<open>templates/example-db-schema.py\<close>\<close>

text \<open>
  The script reads one environment variable, asks the file system whether the database
  file is there, and then either walks the working directory for database files or puts
  three queries to SQLite. It prints lines and ends with an exit code. The model keeps
  every call the script makes to the outside and every line it prints, in order, as a
  list of events; what the outside answers is a value of type \<open>world\<close>.

  A Python \<open>str\<close> is a \<open>string\<close> here: a list of characters, each a code point below
  256. The order on strings is the lexicographic order on code points, which is the
  order Python's \<open>sorted\<close> uses.
\<close>

subsection \<open>Strings\<close>

definition endswith :: "string \<Rightarrow> string \<Rightarrow> bool" where
  \<comment> \<open>\<open>s.endswith(suffix)\<close>\<close>
  "endswith s suffix =
     (length suffix \<le> length s \<and> drop (length s - length suffix) s = suffix)"

fun join :: "string \<Rightarrow> string list \<Rightarrow> string" where
  \<comment> \<open>\<open>sep.join(xs)\<close>\<close>
  "join sep [] = []"
| "join sep [x] = x"
| "join sep (x # y # ys) = x @ sep @ join sep (y # ys)"

definition hex2 :: "nat \<Rightarrow> string" where
  \<comment> \<open>two lower-case hexadecimal digits\<close>
  "hex2 n = [''0123456789abcdef'' ! (n div 16 mod 16), ''0123456789abcdef'' ! (n mod 16)]"

definition printable :: "char \<Rightarrow> bool" where
  \<comment> \<open>the code points below 256 that \<open>repr\<close> leaves as they are\<close>
  "printable c = (let n = (of_char c :: nat) in (32 \<le> n \<and> n \<le> 126) \<or> (161 \<le> n \<and> n \<noteq> 173))"

definition repr_char :: "char \<Rightarrow> char \<Rightarrow> string" where
  "repr_char quote c =
     (if c = quote \<or> c = CHR 0x5C then [CHR 0x5C, c]
      else if c = CHR 0x09 then [CHR 0x5C, CHR ''t'']
      else if c = CHR 0x0A then [CHR 0x5C, CHR ''n'']
      else if c = CHR 0x0D then [CHR 0x5C, CHR ''r'']
      else if printable c then [c]
      else [CHR 0x5C, CHR ''x''] @ hex2 (of_char c))"

definition repr_str :: "string \<Rightarrow> string" where
  \<comment> \<open>\<open>repr(s)\<close> of a \<open>str\<close>: single quotes, unless the string has a single quote
      and no double quote\<close>
  "repr_str s =
     (let quote = (if CHR 0x27 \<in> set s \<and> CHR 0x22 \<notin> set s then CHR 0x22 else CHR 0x27)
      in [quote] @ concat (map (repr_char quote) s) @ [quote])"

subsection \<open>Sets of strings\<close>

text \<open>
  A Python \<open>set\<close> of strings is a \<open>string set\<close>. The order in which the interpreter
  iterates over a set follows the hashes of its elements, and the hash of a string is
  salted afresh for every process. The model keeps what the script can observe of it:
  \<open>hash\<close> ranks the strings, and a set is iterated by increasing rank.
\<close>

definition set_iter :: "(string \<Rightarrow> nat) \<Rightarrow> string set \<Rightarrow> string list" where
  "set_iter hash S = sort_key hash (sorted_list_of_set S)"

definition repr_set :: "(string \<Rightarrow> nat) \<Rightarrow> string set \<Rightarrow> string" where
  \<comment> \<open>\<open>repr(S)\<close>, which is what \<open>f"{S}"\<close> prints\<close>
  "repr_set hash S =
     (if S = {} then ''set()''
      else ''{'' @ join '', '' (map repr_str (set_iter hash S)) @ ''}'')"

subsection \<open>The file system\<close>

text \<open>
  The tree below the working directory. \<open>Dir_unreadable\<close> is a directory whose entries
  the walk does not get: listing it fails (a permissions failure, say).
\<close>

datatype node = File | Dir_unreadable | Dir "(string \<times> node) list"

definition os_path_join :: "string \<Rightarrow> string \<Rightarrow> string" where
  "os_path_join a b =
     (if b \<noteq> [] \<and> hd b = CHR ''/'' then b
      else if a = [] \<or> last a = CHR ''/'' then a @ b
      else a @ ''/'' @ b)"

text \<open>
  \<open>os.walk(top)\<close> as the script calls it, with the defaults \<open>topdown=True\<close> and
  \<open>onerror=None\<close>: a directory yields its path, the names of its subdirectories and the
  names of its other entries, and then its subdirectories are walked in turn. With
  \<open>onerror=None\<close> the error of a directory listing is ignored by \<open>os.walk\<close> itself, and
  that directory yields nothing.
\<close>

fun os_walk :: "string \<Rightarrow> node \<Rightarrow> (string \<times> string list \<times> string list) list" where
  "os_walk root (Dir entries) =
     (root, [n. (n, e) \<leftarrow> entries, e \<noteq> File], [n. (n, e) \<leftarrow> entries, e = File])
       # concat (map (\<lambda>(n, e). os_walk (os_path_join root n) e) [(n, e) \<leftarrow> entries. e \<noteq> File])"
| "os_walk root Dir_unreadable = []"
| "os_walk root File = []"

subsection \<open>The database\<close>

text \<open>
  The calls the script makes on the \<open>sqlite3\<close> module, its connection and its cursor. Any
  of them may raise \<open>sqlite3.Error\<close>; \<open>raises\<close> gives the message of the error a call
  raises, if it raises one. \<open>tables\<close> is the catalog: the entries of \<open>sqlite_master\<close> of
  type \<open>table\<close>, each with the names of its columns in the order of their declaration.
\<close>

datatype db_call =
  Connect string | Cursor | Execute string "string list" | Fetchone | Fetchall | Close

record database =
  tables :: "(string \<times> string list) list"
  raises :: "db_call \<Rightarrow> string option"

definition select_name_where :: "database \<Rightarrow> string \<Rightarrow> string list" where
  \<comment> \<open>the rows of \<open>SELECT name FROM sqlite_master WHERE type='table' AND name=?\<close>; a row
      is the name it holds. The comparison \<open>name=?\<close> is SQLite's on text: equality of
      the two strings.\<close>
  "select_name_where db name = [n \<leftarrow> map fst (tables db). n = name]"

definition select_name :: "database \<Rightarrow> string list" where
  \<comment> \<open>the rows of \<open>SELECT name FROM sqlite_master WHERE type='table'\<close>\<close>
  "select_name db = map fst (tables db)"

definition ascii_lower :: "char \<Rightarrow> char" where
  "ascii_lower c =
     (let n = (of_char c :: nat) in if 65 \<le> n \<and> n \<le> 90 then char_of (n + 32) else c)"

definition table_info :: "database \<Rightarrow> string \<Rightarrow> (nat \<times> string) list" where
  \<comment> \<open>the rows of \<open>PRAGMA table_info(name)\<close>, one for each column: of a row
      \<open>(cid, name, type, notnull, dflt_value, pk)\<close> the model keeps \<open>row[0]\<close> and
      \<open>row[1]\<close>. SQLite finds the table by its name without regard to the case of ASCII
      letters; a name that is no table gives no rows.\<close>
  "table_info db name =
     (case find (\<lambda>(n, cols). map ascii_lower n = map ascii_lower name) (tables db) of
        None \<Rightarrow> []
      | Some (n, cols) \<Rightarrow> zip [0..<length cols] cols)"

subsection \<open>What a run does\<close>

record world =
  environ :: "string \<Rightarrow> string option"
  path_exists :: "string \<Rightarrow> bool"
  cwd :: node
  sqlite_file :: "string \<Rightarrow> database"

datatype event = Print string | Os_path_exists string | Os_walk string | Sqlite3 db_call

datatype 'a result = Return 'a | Sys_exit int | Sqlite3_Error string

type_synonym 'a io = "event list \<times> 'a result"

definition return :: "'a \<Rightarrow> 'a io" where
  "return a = ([], Return a)"

definition and_then :: "'a io \<Rightarrow> ('a \<Rightarrow> 'b io) \<Rightarrow> 'b io" where
  \<comment> \<open>one statement after another: an exit or a raised error skips what follows\<close>
  "and_then m f =
     (case m of
        (es, Return a) \<Rightarrow> (case f a of (es', r) \<Rightarrow> (es @ es', r))
      | (es, Sys_exit n) \<Rightarrow> (es, Sys_exit n)
      | (es, Sqlite3_Error e) \<Rightarrow> (es, Sqlite3_Error e))"

definition try_except :: "'a io \<Rightarrow> (string \<Rightarrow> 'a io) \<Rightarrow> 'a io" where
  \<comment> \<open>\<open>try: m except sqlite3.Error as e: handler e\<close>; \<open>SystemExit\<close> is no
      \<open>sqlite3.Error\<close> and passes through\<close>
  "try_except m handler =
     (case m of
        (es, Sqlite3_Error e) \<Rightarrow> (case handler e of (es', r) \<Rightarrow> (es @ es', r))
      | (es, r) \<Rightarrow> (es, r))"

fun for_each :: "'a list \<Rightarrow> ('a \<Rightarrow> unit io) \<Rightarrow> unit io" where
  "for_each [] body = return ()"
| "for_each (x # xs) body = and_then (body x) (\<lambda>_. for_each xs body)"

definition print :: "string \<Rightarrow> unit io" where
  "print s = ([Print s], Return ())"

definition sys_exit :: "int \<Rightarrow> 'a io" where
  "sys_exit n = ([], Sys_exit n)"

definition os_path_exists :: "world \<Rightarrow> string \<Rightarrow> bool io" where
  "os_path_exists w p = ([Os_path_exists p], Return (path_exists w p))"

definition walk :: "world \<Rightarrow> string \<Rightarrow> (string \<times> string list \<times> string list) list io" where
  "walk w root = ([Os_walk root], Return (os_walk root (cwd w)))"

definition sqlite3 :: "database \<Rightarrow> db_call \<Rightarrow> 'a \<Rightarrow> 'a io" where
  \<comment> \<open>a call on the database: it raises, or it returns the value given\<close>
  "sqlite3 db c v =
     ([Sqlite3 c], case raises db c of Some msg \<Rightarrow> Sqlite3_Error msg | None \<Rightarrow> Return v)"

subsection \<open>The script\<close>

definition DB_PATH :: "world \<Rightarrow> string" where
  "DB_PATH w = (case environ w ''DB_PATH'' of None \<Rightarrow> ''data/app.db'' | Some v \<Rightarrow> v)"

definition REQUIRED_TABLE :: string where
  "REQUIRED_TABLE = ''users''"

definition REQUIRED_COLUMNS :: "string set" where
  "REQUIRED_COLUMNS = {''id'', ''email'', ''created_at''}"

definition quoted :: "string \<Rightarrow> string" where
  \<comment> \<open>\<open>f"'{s}'"\<close>\<close>
  "quoted s = [CHR 0x27] @ s @ [CHR 0x27]"

definition sql_table_named :: string where
  \<comment> \<open>the query text of lines 33 to 36\<close>
  "sql_table_named = ''SELECT name FROM sqlite_master WHERE type='table' AND name=?''"

definition sql_tables :: string where
  \<comment> \<open>the query text of line 41; it ends with a single quote\<close>
  "sql_tables = ''SELECT name FROM sqlite_master WHERE type='table'' @ [CHR 0x27]"

definition not_found :: "string \<Rightarrow> world \<Rightarrow> unit io" where
  \<comment> \<open>lines 19 to 26\<close>
  "not_found path w =
     and_then (print (''FAIL: Database not found at '' @ path)) (\<lambda>_.
     and_then (print '''') (\<lambda>_.
     and_then (print ''Looking for database files...'') (\<lambda>_.
     and_then (walk w ''.'') (\<lambda>triples.
     and_then (for_each triples (\<lambda>(root, dirs, files).
       for_each files (\<lambda>f.
         if endswith f ''.db'' \<or> endswith f ''.sqlite''
         then print (''  Found: '' @ os_path_join root f)
         else return ()))) (\<lambda>_.
     sys_exit 1)))))"

definition no_table :: "string \<Rightarrow> database \<Rightarrow> unit io" where
  \<comment> \<open>lines 38 to 44\<close>
  "no_table table db =
     and_then (print (''FAIL: Table '' @ quoted table @ '' does not exist'')) (\<lambda>_.
     and_then (print '''') (\<lambda>_.
     and_then (print ''Available tables:'') (\<lambda>_.
     and_then (sqlite3 db (Execute sql_tables []) (select_name db)) (\<lambda>rows.
     and_then (sqlite3 db Fetchall rows) (\<lambda>rows.
     and_then (for_each rows (\<lambda>row. print (''  - '' @ row))) (\<lambda>_.
     sys_exit 1))))))"

definition check :: "string \<Rightarrow> string set \<Rightarrow> (string \<Rightarrow> nat) \<Rightarrow> string \<Rightarrow> database \<Rightarrow> unit io" where
  \<comment> \<open>lines 29 to 59, the body of the \<open>try\<close>\<close>
  "check table required hash path db =
     and_then (sqlite3 db (Connect path) ()) (\<lambda>conn.
     and_then (sqlite3 db Cursor ()) (\<lambda>cursor.
     and_then (sqlite3 db (Execute sql_table_named [table])
                 (select_name_where db table)) (\<lambda>rows.
     and_then (sqlite3 db Fetchone (case rows of [] \<Rightarrow> None | row # _ \<Rightarrow> Some row)) (\<lambda>row.
     and_then (if row = None then no_table table db else return ()) (\<lambda>_.
     and_then (sqlite3 db (Execute (''PRAGMA table_info('' @ table @ '')'') [])
                 (table_info db table)) (\<lambda>rows.
     and_then (sqlite3 db Fetchall rows) (\<lambda>rows.
       let columns = set (map snd rows);
           missing = required - columns
       in
     and_then (if missing \<noteq> {}
               then and_then (print (''FAIL: Missing columns in '' @ table @ '': ''
                                       @ repr_set hash missing)) (\<lambda>_.
                    and_then (print (''Available columns: '' @ repr_set hash columns)) (\<lambda>_.
                    sys_exit 1))
               else return ()) (\<lambda>_.
     and_then (print (''PASS: Table '' @ quoted table @ '' exists with required columns'')) (\<lambda>_.
     and_then (print (''Columns: '' @ join '', '' (sorted_list_of_set columns))) (\<lambda>_.
     sqlite3 db Close ()))))))))))"

definition script :: "string \<Rightarrow> string \<Rightarrow> string set \<Rightarrow> (string \<Rightarrow> nat) \<Rightarrow> world \<Rightarrow> unit io" where
  \<comment> \<open>the script from line 15 on, for any value of the three configuration variables\<close>
  "script path table required hash w =
     and_then (print (''Checking: '' @ path)) (\<lambda>_.
     and_then (os_path_exists w path) (\<lambda>exists.
     and_then (if \<not> exists then not_found path w else return ()) (\<lambda>_.
     try_except (check table required hash path (sqlite_file w path)) (\<lambda>e.
       and_then (print (''FAIL: Database error: '' @ e)) (\<lambda>_.
       sys_exit 1)))))"

definition main :: "(string \<Rightarrow> nat) \<Rightarrow> world \<Rightarrow> unit io" where
  "main hash w = script (DB_PATH w) REQUIRED_TABLE REQUIRED_COLUMNS hash w"

text \<open>
  What a process leaves behind: the lines on standard output, the calls it made, and
  its exit code. A script that runs off its end exits with code 0; an exception that
  nothing catches ends the process with a traceback instead.
\<close>

datatype outcome = Exit int | Unhandled string

definition stdout :: "'a io \<Rightarrow> string list" where
  "stdout r = [s. Print s \<leftarrow> fst r]"

definition db_calls :: "'a io \<Rightarrow> db_call list" where
  "db_calls r = [c. Sqlite3 c \<leftarrow> fst r]"

definition exit_code :: "'a io \<Rightarrow> outcome" where
  "exit_code r =
     (case snd r of Return _ \<Rightarrow> Exit 0 | Sys_exit n \<Rightarrow> Exit n | Sqlite3_Error e \<Rightarrow> Unhandled e)"

definition calls :: "'a io \<Rightarrow> event list" where
  \<comment> \<open>the calls to the outside, without the lines printed\<close>
  "calls r = [e \<leftarrow> fst r. case e of Print s \<Rightarrow> False | _ \<Rightarrow> True]"

subsection \<open>Notions the properties are stated with\<close>

definition found_lines :: "(string \<times> string list \<times> string list) list \<Rightarrow> string list" where
  \<comment> \<open>a line for every file that the walk yields with a name ending in \<open>.db\<close> or
      \<open>.sqlite\<close>, in the order of the walk\<close>
  "found_lines triples =
     [''  Found: '' @ os_path_join root f.
        (root, dirs, files) \<leftarrow> triples, f \<leftarrow> files, endswith f ''.db'' \<or> endswith f ''.sqlite'']"

definition opened :: "world \<Rightarrow> database" where
  \<comment> \<open>the database the run connects to\<close>
  "opened w = sqlite_file w (DB_PATH w)"

definition observed :: "database \<Rightarrow> string set" where
  \<comment> \<open>the column names that the introspection of the required table reports\<close>
  "observed db = set (map snd (table_info db REQUIRED_TABLE))"

definition no_error :: "database \<Rightarrow> bool" where
  \<comment> \<open>no call on the database raises\<close>
  "no_error db = (\<forall>c. raises db c = None)"

fun first_error :: "database \<Rightarrow> db_call list \<Rightarrow> string option" where
  \<comment> \<open>the message of the first call in the list that raises\<close>
  "first_error db [] = None"
| "first_error db (c # cs) = (case raises db c of Some m \<Rightarrow> Some m | None \<Rightarrow> first_error db cs)"

fun listable :: "node \<Rightarrow> node" where
  \<comment> \<open>the same tree with an empty directory for every directory that cannot be listed\<close>
  "listable File = File"
| "listable Dir_unreadable = Dir []"
| "listable (Dir entries) = Dir (map (\<lambda>(n, e). (n, listable e)) entries)"

subsection \<open>Example inputs\<close>

definition hash_a :: "string \<Rightarrow> nat" where
  "hash_a s = 0"

definition hash_b :: "string \<Rightarrow> nat" where
  "hash_b s = (if s = ''email'' then 0 else 1)"

definition no_raise :: "db_call \<Rightarrow> string option" where
  "no_raise c = None"

definition db_full :: database where
  "db_full = \<lparr>tables = [(''users'', [''id'', ''email'', ''created_at'', ''name''])],
              raises = no_raise\<rparr>"

definition db_short :: database where
  "db_short = \<lparr>tables = [(''users'', [''id'', ''name''])], raises = no_raise\<rparr>"

definition db_accounts :: database where
  "db_accounts = \<lparr>tables = [(''accounts'', [''id''])], raises = no_raise\<rparr>"

definition db_Users :: database where
  "db_Users = \<lparr>tables = [(''Users'', [''id'', ''email'', ''created_at''])], raises = no_raise\<rparr>"

definition db_Email :: database where
  "db_Email = \<lparr>tables = [(''users'', [''id'', ''Email'', ''created_at''])], raises = no_raise\<rparr>"

definition raise_on_connect :: "db_call \<Rightarrow> string option" where
  "raise_on_connect c =
     (case c of Connect p \<Rightarrow> Some ''unable to open database file'' | _ \<Rightarrow> None)"

definition db_directory :: database where
  \<comment> \<open>what \<open>sqlite3\<close> finds when the path names a directory\<close>
  "db_directory = \<lparr>tables = [], raises = raise_on_connect\<rparr>"

definition raise_on_execute :: "db_call \<Rightarrow> string option" where
  "raise_on_execute c =
     (case c of Execute sql params \<Rightarrow> Some ''file is not a database'' | _ \<Rightarrow> None)"

definition db_corrupt :: database where
  \<comment> \<open>what \<open>sqlite3\<close> finds when the file is no database: it opens, and the first
      statement fails\<close>
  "db_corrupt = \<lparr>tables = [], raises = raise_on_execute\<rparr>"

definition raise_on_close :: "db_call \<Rightarrow> string option" where
  "raise_on_close c = (if c = Close then Some ''unable to close'' else None)"

definition db_close_fails :: database where
  "db_close_fails = \<lparr>tables = [(''users'', [''id'', ''email'', ''created_at''])],
                     raises = raise_on_close\<rparr>"

definition no_environ :: "string \<Rightarrow> string option" where
  "no_environ name = None"

definition only_app_db :: "string \<Rightarrow> bool" where
  "only_app_db p = (p = ''data/app.db'')"

definition world_with :: "database \<Rightarrow> world" where
  \<comment> \<open>\<open>DB_PATH\<close> unset, the database at \<open>data/app.db\<close>\<close>
  "world_with db = \<lparr>environ = no_environ, path_exists = only_app_db,
                     cwd = Dir [(''data'', Dir [(''app.db'', File)])],
                     sqlite_file = (\<lambda>p. db)\<rparr>"

definition nothing_exists :: "string \<Rightarrow> bool" where
  "nothing_exists p = False"

definition world_missing :: world where
  \<comment> \<open>no database at the path; below the working directory one directory that cannot
      be listed and one with two database files\<close>
  "world_missing = \<lparr>environ = no_environ, path_exists = nothing_exists,
                    cwd = Dir [(''secret'', Dir_unreadable), (''notes.txt'', File),
                               (''old'', Dir [(''app.db'', File), (''readme.md'', File),
                                              (''cache.sqlite'', File)])],
                    sqlite_file = (\<lambda>p. db_accounts)\<rparr>"

section \<open>The paths through the script\<close>

lemmas io_defs = and_then_def return_def print_def sys_exit_def sqlite3_def try_except_def
  os_path_exists_def walk_def

lemma for_each_print:
  "for_each xs (\<lambda>x. print (f x)) = (map (\<lambda>x. Print (f x)) xs, Return ())"
  by (induction xs) (simp_all add: io_defs)

lemma for_each_Print:
  "for_each xs (\<lambda>x. ([Print (f x)], Return ())) = (map (\<lambda>x. Print (f x)) xs, Return ())"
  using for_each_print [of xs f] by (simp add: print_def)

lemma for_each_print_if:
  "for_each xs (\<lambda>x. if P x then print (f x) else return ())
     = (map (\<lambda>x. Print (f x)) (filter P xs), Return ())"
  by (induction xs) (simp_all add: io_defs)

lemma for_each_found:
  "for_each triples (\<lambda>(root, dirs, files).
       for_each files (\<lambda>f.
         if endswith f ''.db'' \<or> endswith f ''.sqlite''
         then print (''  Found: '' @ os_path_join root f)
         else return ()))
   = (map Print (found_lines triples), Return ())"
proof -
  have aux: "map Print (concat (map (\<lambda>f. if P f then [g f] else []) fs))
               = map (\<lambda>f. Print (g f)) (filter P fs)" for P g and fs :: "string list"
    by (induction fs) simp_all
  show ?thesis
    by (induction triples) (auto simp: io_defs found_lines_def for_each_print_if aux)
qed

lemma not_found_eq:
  "not_found path w =
     ([Print (''FAIL: Database not found at '' @ path), Print '''',
       Print ''Looking for database files...'', Os_walk ''.'']
        @ map Print (found_lines (os_walk ''.'' (cwd w))), Sys_exit 1)"
  by (simp add: not_found_def for_each_found) (simp add: io_defs)

lemma script_not_exists:
  "\<not> path_exists w path \<Longrightarrow>
   script path table required hash w =
     ([Print (''Checking: '' @ path), Os_path_exists path,
       Print (''FAIL: Database not found at '' @ path), Print '''',
       Print ''Looking for database files...'', Os_walk ''.'']
        @ map Print (found_lines (os_walk ''.'' (cwd w))), Sys_exit 1)"
  by (simp add: script_def not_found_eq io_defs)

lemma stdout_map_Print:
  "concat (map ((\<lambda>e. case e of Print s \<Rightarrow> [s] | _ \<Rightarrow> []) \<circ> (\<lambda>x. Print (f x))) xs) = map f xs"
  by (induction xs) simp_all

lemma stdout_map_Print_id:
  "concat (map ((\<lambda>e. case e of Print s \<Rightarrow> [s] | _ \<Rightarrow> []) \<circ> Print) xs) = xs"
  by (induction xs) simp_all

lemma select_name_where_Nil:
  "select_name_where db t = [] \<longleftrightarrow> t \<notin> set (select_name db)"
  by (auto simp: select_name_where_def select_name_def filter_empty_conv)

lemma fetchone_None:
  "(case select_name_where db t of [] \<Rightarrow> None | row # _ \<Rightarrow> Some row) = None
     \<longleftrightarrow> t \<notin> set (select_name db)"
  using select_name_where_Nil [of db t] by (cases "select_name_where db t") simp_all

lemma no_table_eq:
  "raises db (Execute sql_tables []) = None \<Longrightarrow> raises db Fetchall = None \<Longrightarrow>
   no_table table db =
     ([Print (''FAIL: Table '' @ quoted table @ '' does not exist''), Print '''',
       Print ''Available tables:'', Sqlite3 (Execute sql_tables []), Sqlite3 Fetchall]
        @ map (\<lambda>n. Print (''  - '' @ n)) (select_name db), Sys_exit 1)"
  by (simp add: no_table_def for_each_Print io_defs)

lemma check_no_table:
  assumes "no_error db" and "table \<notin> set (select_name db)"
  shows "check table required hash path db =
     ([Sqlite3 (Connect path), Sqlite3 Cursor, Sqlite3 (Execute sql_table_named [table]),
       Sqlite3 Fetchone,
       Print (''FAIL: Table '' @ quoted table @ '' does not exist''), Print '''',
       Print ''Available tables:'', Sqlite3 (Execute sql_tables []), Sqlite3 Fetchall]
        @ map (\<lambda>n. Print (''  - '' @ n)) (select_name db), Sys_exit 1)"
  using assms
  by (simp add: check_def fetchone_None no_table_eq no_error_def io_defs)

lemma check_columns:
  assumes "no_error db" and "table \<in> set (select_name db)"
  shows "check table required hash path db =
     (let columns = set (map snd (table_info db table)); missing = required - columns in
      ([Sqlite3 (Connect path), Sqlite3 Cursor, Sqlite3 (Execute sql_table_named [table]),
        Sqlite3 Fetchone, Sqlite3 (Execute (''PRAGMA table_info('' @ table @ '')'') []),
        Sqlite3 Fetchall]
        @ (if missing \<noteq> {}
           then [Print (''FAIL: Missing columns in '' @ table @ '': '' @ repr_set hash missing),
                 Print (''Available columns: '' @ repr_set hash columns)]
           else [Print (''PASS: Table '' @ quoted table @ '' exists with required columns''),
                 Print (''Columns: '' @ join '', '' (sorted_list_of_set columns)),
                 Sqlite3 Close]),
       if missing \<noteq> {} then Sys_exit 1 else Return ()))"
  using assms
  by (simp add: check_def fetchone_None no_error_def Let_def io_defs)

lemma script_exists:
  "path_exists w path \<Longrightarrow>
   script path table required hash w =
     (let r = try_except (check table required hash path (sqlite_file w path)) (\<lambda>e.
                and_then (print (''FAIL: Database error: '' @ e)) (\<lambda>_. sys_exit 1))
      in (Print (''Checking: '' @ path) # Os_path_exists path # fst r, snd r))"
  by (simp add: script_def) (simp add: io_defs split: prod.splits result.splits)

lemma main_no_table:
  assumes "path_exists w (DB_PATH w)" and "no_error (opened w)"
    and "REQUIRED_TABLE \<notin> set (select_name (opened w))"
  shows "main hash w =
     ([Print (''Checking: '' @ DB_PATH w), Os_path_exists (DB_PATH w),
       Sqlite3 (Connect (DB_PATH w)), Sqlite3 Cursor,
       Sqlite3 (Execute sql_table_named [REQUIRED_TABLE]), Sqlite3 Fetchone,
       Print (''FAIL: Table '' @ quoted REQUIRED_TABLE @ '' does not exist''), Print '''',
       Print ''Available tables:'', Sqlite3 (Execute sql_tables []), Sqlite3 Fetchall]
        @ map (\<lambda>n. Print (''  - '' @ n)) (select_name (opened w)), Sys_exit 1)"
  using assms
  by (simp add: main_def script_exists check_no_table opened_def try_except_def)

lemma main_columns:
  assumes "path_exists w (DB_PATH w)" and "no_error (opened w)"
    and "REQUIRED_TABLE \<in> set (select_name (opened w))"
  shows "main hash w =
     ([Print (''Checking: '' @ DB_PATH w), Os_path_exists (DB_PATH w),
       Sqlite3 (Connect (DB_PATH w)), Sqlite3 Cursor,
       Sqlite3 (Execute sql_table_named [REQUIRED_TABLE]), Sqlite3 Fetchone,
       Sqlite3 (Execute (''PRAGMA table_info('' @ REQUIRED_TABLE @ '')'') []), Sqlite3 Fetchall]
        @ (if REQUIRED_COLUMNS \<subseteq> observed (opened w)
           then [Print (''PASS: Table '' @ quoted REQUIRED_TABLE @ '' exists with required columns''),
                 Print (''Columns: '' @ join '', '' (sorted_list_of_set (observed (opened w)))),
                 Sqlite3 Close]
           else [Print (''FAIL: Missing columns in '' @ REQUIRED_TABLE @ '': ''
                          @ repr_set hash (REQUIRED_COLUMNS - observed (opened w))),
                 Print (''Available columns: '' @ repr_set hash (observed (opened w)))]),
      if REQUIRED_COLUMNS \<subseteq> observed (opened w) then Return () else Sys_exit 1)"
  using assms
  by (simp add: main_def script_exists check_columns opened_def observed_def try_except_def Let_def)

lemma set_iter_finite: "finite S \<Longrightarrow> set (set_iter hash S) = S \<and> distinct (set_iter hash S)"
  by (simp add: set_iter_def)

lemma world_with_simps:
  "DB_PATH (world_with db) = ''data/app.db''"
  "path_exists (world_with db) ''data/app.db''"
  "opened (world_with db) = db"
  by (simp_all add: world_with_def DB_PATH_def no_environ_def only_app_db_def opened_def)

lemma no_error_examples:
  "no_error db_full" "no_error db_short" "no_error db_accounts" "no_error db_Users"
  "no_error db_Email"
  by (simp_all add: no_error_def db_full_def db_short_def db_accounts_def db_Users_def
      db_Email_def no_raise_def)

text \<open>
  When the path exists the script takes one of twelve paths. Nine end at the handler of
  the \<open>try\<close>, one for each call on the database, which can raise. Three end in a
  verdict: the table is missing, columns are missing, or the schema passes. The
  conditions of a path do not depend on the hashing of the process, and its events hold
  for every hashing.
\<close>

lemma script_cases [consumes 1, case_names connect cursor lookup fetchone listing fetchall_tables no_table pragma fetchall_columns missing close pass]:
  assumes "path_exists w path"
  obtains
    (connect) m where
      "raises (sqlite_file w path) (Connect path) = Some m"
      "\<forall>hash. script path table required hash w =
          ([Print (''Checking: '' @ path),
            Os_path_exists path,
            Sqlite3 (Connect path),
            Print (''FAIL: Database error: '' @ m)], Sys_exit 1)"
  | (cursor) m where
      "raises (sqlite_file w path) (Connect path) = None"
      "raises (sqlite_file w path) (Cursor) = Some m"
      "\<forall>hash. script path table required hash w =
          ([Print (''Checking: '' @ path),
            Os_path_exists path,
            Sqlite3 (Connect path),
            Sqlite3 (Cursor),
            Print (''FAIL: Database error: '' @ m)], Sys_exit 1)"
  | (lookup) m where
      "raises (sqlite_file w path) (Connect path) = None"
      "raises (sqlite_file w path) (Cursor) = None"
      "raises (sqlite_file w path) (Execute sql_table_named [table]) = Some m"
      "\<forall>hash. script path table required hash w =
          ([Print (''Checking: '' @ path),
            Os_path_exists path,
            Sqlite3 (Connect path),
            Sqlite3 (Cursor),
            Sqlite3 (Execute sql_table_named [table]),
            Print (''FAIL: Database error: '' @ m)], Sys_exit 1)"
  | (fetchone) m where
      "raises (sqlite_file w path) (Connect path) = None"
      "raises (sqlite_file w path) (Cursor) = None"
      "raises (sqlite_file w path) (Execute sql_table_named [table]) = None"
      "raises (sqlite_file w path) (Fetchone) = Some m"
      "\<forall>hash. script path table required hash w =
          ([Print (''Checking: '' @ path),
            Os_path_exists path,
            Sqlite3 (Connect path),
            Sqlite3 (Cursor),
            Sqlite3 (Execute sql_table_named [table]),
            Sqlite3 (Fetchone),
            Print (''FAIL: Database error: '' @ m)], Sys_exit 1)"
  | (listing) m where
      "raises (sqlite_file w path) (Connect path) = None"
      "raises (sqlite_file w path) (Cursor) = None"
      "raises (sqlite_file w path) (Execute sql_table_named [table]) = None"
      "raises (sqlite_file w path) (Fetchone) = None"
      "table \<notin> set (select_name (sqlite_file w path))"
      "raises (sqlite_file w path) (Execute sql_tables []) = Some m"
      "\<forall>hash. script path table required hash w =
          ([Print (''Checking: '' @ path),
            Os_path_exists path,
            Sqlite3 (Connect path),
            Sqlite3 (Cursor),
            Sqlite3 (Execute sql_table_named [table]),
            Sqlite3 (Fetchone),
            Print (''FAIL: Table '' @ quoted table @ '' does not exist''),
            Print '''',
            Print ''Available tables:'',
            Sqlite3 (Execute sql_tables []),
            Print (''FAIL: Database error: '' @ m)], Sys_exit 1)"
  | (fetchall_tables) m where
      "raises (sqlite_file w path) (Connect path) = None"
      "raises (sqlite_file w path) (Cursor) = None"
      "raises (sqlite_file w path) (Execute sql_table_named [table]) = None"
      "raises (sqlite_file w path) (Fetchone) = None"
      "table \<notin> set (select_name (sqlite_file w path))"
      "raises (sqlite_file w path) (Execute sql_tables []) = None"
      "raises (sqlite_file w path) (Fetchall) = Some m"
      "\<forall>hash. script path table required hash w =
          ([Print (''Checking: '' @ path),
            Os_path_exists path,
            Sqlite3 (Connect path),
            Sqlite3 (Cursor),
            Sqlite3 (Execute sql_table_named [table]),
            Sqlite3 (Fetchone),
            Print (''FAIL: Table '' @ quoted table @ '' does not exist''),
            Print '''',
            Print ''Available tables:'',
            Sqlite3 (Execute sql_tables []),
            Sqlite3 (Fetchall),
            Print (''FAIL: Database error: '' @ m)], Sys_exit 1)"
  | (no_table)
      "raises (sqlite_file w path) (Connect path) = None"
      "raises (sqlite_file w path) (Cursor) = None"
      "raises (sqlite_file w path) (Execute sql_table_named [table]) = None"
      "raises (sqlite_file w path) (Fetchone) = None"
      "table \<notin> set (select_name (sqlite_file w path))"
      "raises (sqlite_file w path) (Execute sql_tables []) = None"
      "raises (sqlite_file w path) (Fetchall) = None"
      "\<forall>hash. script path table required hash w =
          ([Print (''Checking: '' @ path),
            Os_path_exists path,
            Sqlite3 (Connect path),
            Sqlite3 (Cursor),
            Sqlite3 (Execute sql_table_named [table]),
            Sqlite3 (Fetchone),
            Print (''FAIL: Table '' @ quoted table @ '' does not exist''),
            Print '''',
            Print ''Available tables:'',
            Sqlite3 (Execute sql_tables []),
            Sqlite3 (Fetchall)]
           @ map (\<lambda>n. Print (''  - '' @ n)) (select_name (sqlite_file w path)), Sys_exit 1)"
  | (pragma) m where
      "raises (sqlite_file w path) (Connect path) = None"
      "raises (sqlite_file w path) (Cursor) = None"
      "raises (sqlite_file w path) (Execute sql_table_named [table]) = None"
      "raises (sqlite_file w path) (Fetchone) = None"
      "table \<in> set (select_name (sqlite_file w path))"
      "raises (sqlite_file w path) (Execute (''PRAGMA table_info('' @ table @ '')'') []) = Some m"
      "\<forall>hash. script path table required hash w =
          ([Print (''Checking: '' @ path),
            Os_path_exists path,
            Sqlite3 (Connect path),
            Sqlite3 (Cursor),
            Sqlite3 (Execute sql_table_named [table]),
            Sqlite3 (Fetchone),
            Sqlite3 (Execute (''PRAGMA table_info('' @ table @ '')'') []),
            Print (''FAIL: Database error: '' @ m)], Sys_exit 1)"
  | (fetchall_columns) m where
      "raises (sqlite_file w path) (Connect path) = None"
      "raises (sqlite_file w path) (Cursor) = None"
      "raises (sqlite_file w path) (Execute sql_table_named [table]) = None"
      "raises (sqlite_file w path) (Fetchone) = None"
      "table \<in> set (select_name (sqlite_file w path))"
      "raises (sqlite_file w path) (Execute (''PRAGMA table_info('' @ table @ '')'') []) = None"
      "raises (sqlite_file w path) (Fetchall) = Some m"
      "\<forall>hash. script path table required hash w =
          ([Print (''Checking: '' @ path),
            Os_path_exists path,
            Sqlite3 (Connect path),
            Sqlite3 (Cursor),
            Sqlite3 (Execute sql_table_named [table]),
            Sqlite3 (Fetchone),
            Sqlite3 (Execute (''PRAGMA table_info('' @ table @ '')'') []),
            Sqlite3 (Fetchall),
            Print (''FAIL: Database error: '' @ m)], Sys_exit 1)"
  | (missing)
      "raises (sqlite_file w path) (Connect path) = None"
      "raises (sqlite_file w path) (Cursor) = None"
      "raises (sqlite_file w path) (Execute sql_table_named [table]) = None"
      "raises (sqlite_file w path) (Fetchone) = None"
      "table \<in> set (select_name (sqlite_file w path))"
      "raises (sqlite_file w path) (Execute (''PRAGMA table_info('' @ table @ '')'') []) = None"
      "raises (sqlite_file w path) (Fetchall) = None"
      "\<not> required \<subseteq> set (map snd (table_info (sqlite_file w path) table))"
      "\<forall>hash. script path table required hash w =
          ([Print (''Checking: '' @ path),
            Os_path_exists path,
            Sqlite3 (Connect path),
            Sqlite3 (Cursor),
            Sqlite3 (Execute sql_table_named [table]),
            Sqlite3 (Fetchone),
            Sqlite3 (Execute (''PRAGMA table_info('' @ table @ '')'') []),
            Sqlite3 (Fetchall),
            Print (''FAIL: Missing columns in '' @ table @ '': '' @ repr_set hash (required - set (map snd (table_info (sqlite_file w path) table)))),
            Print (''Available columns: '' @ repr_set hash (set (map snd (table_info (sqlite_file w path) table))))], Sys_exit 1)"
  | (close) m where
      "raises (sqlite_file w path) (Connect path) = None"
      "raises (sqlite_file w path) (Cursor) = None"
      "raises (sqlite_file w path) (Execute sql_table_named [table]) = None"
      "raises (sqlite_file w path) (Fetchone) = None"
      "table \<in> set (select_name (sqlite_file w path))"
      "raises (sqlite_file w path) (Execute (''PRAGMA table_info('' @ table @ '')'') []) = None"
      "raises (sqlite_file w path) (Fetchall) = None"
      "required \<subseteq> set (map snd (table_info (sqlite_file w path) table))"
      "raises (sqlite_file w path) (Close) = Some m"
      "\<forall>hash. script path table required hash w =
          ([Print (''Checking: '' @ path),
            Os_path_exists path,
            Sqlite3 (Connect path),
            Sqlite3 (Cursor),
            Sqlite3 (Execute sql_table_named [table]),
            Sqlite3 (Fetchone),
            Sqlite3 (Execute (''PRAGMA table_info('' @ table @ '')'') []),
            Sqlite3 (Fetchall),
            Print (''PASS: Table '' @ quoted table @ '' exists with required columns''),
            Print (''Columns: '' @ join '', '' (sorted_list_of_set (set (map snd (table_info (sqlite_file w path) table))))),
            Sqlite3 (Close),
            Print (''FAIL: Database error: '' @ m)], Sys_exit 1)"
  | (pass)
      "raises (sqlite_file w path) (Connect path) = None"
      "raises (sqlite_file w path) (Cursor) = None"
      "raises (sqlite_file w path) (Execute sql_table_named [table]) = None"
      "raises (sqlite_file w path) (Fetchone) = None"
      "table \<in> set (select_name (sqlite_file w path))"
      "raises (sqlite_file w path) (Execute (''PRAGMA table_info('' @ table @ '')'') []) = None"
      "raises (sqlite_file w path) (Fetchall) = None"
      "required \<subseteq> set (map snd (table_info (sqlite_file w path) table))"
      "raises (sqlite_file w path) (Close) = None"
      "\<forall>hash. script path table required hash w =
          ([Print (''Checking: '' @ path),
            Os_path_exists path,
            Sqlite3 (Connect path),
            Sqlite3 (Cursor),
            Sqlite3 (Execute sql_table_named [table]),
            Sqlite3 (Fetchone),
            Sqlite3 (Execute (''PRAGMA table_info('' @ table @ '')'') []),
            Sqlite3 (Fetchall),
            Print (''PASS: Table '' @ quoted table @ '' exists with required columns''),
            Print (''Columns: '' @ join '', '' (sorted_list_of_set (set (map snd (table_info (sqlite_file w path) table))))),
            Sqlite3 (Close)], Return ())"
proof -
  note defs = script_exists check_def no_table_def for_each_Print io_defs Let_def fetchone_None
  let ?db = "sqlite_file w path"
  note facts = TrueI
  show ?thesis
  proof (cases "raises ?db (Connect path)")
    case (Some m)
    with facts assms show ?thesis by (intro connect [of m]) (simp_all add: defs)
  next
    case None
    note facts = facts None
    show ?thesis
    proof (cases "raises ?db (Cursor)")
      case (Some m)
      with facts assms show ?thesis by (intro cursor [of m]) (simp_all add: defs)
    next
      case None
      note facts = facts None
      show ?thesis
      proof (cases "raises ?db (Execute sql_table_named [table])")
        case (Some m)
        with facts assms show ?thesis by (intro lookup [of m]) (simp_all add: defs)
      next
        case None
        note facts = facts None
        show ?thesis
        proof (cases "raises ?db (Fetchone)")
          case (Some m)
          with facts assms show ?thesis by (intro fetchone [of m]) (simp_all add: defs)
        next
          case None
          note facts = facts None
          show ?thesis
          proof (cases "table \<in> set (select_name (?db))")
            case True
            note facts = facts True
            show ?thesis
            proof (cases "raises ?db (Execute (''PRAGMA table_info('' @ table @ '')'') [])")
              case (Some m)
              with facts assms show ?thesis by (intro pragma [of m]) (simp_all add: defs)
            next
              case None
              note facts = facts None
              show ?thesis
              proof (cases "raises ?db (Fetchall)")
                case (Some m)
                with facts assms show ?thesis by (intro fetchall_columns [of m]) (simp_all add: defs)
              next
                case None
                note facts = facts None
                show ?thesis
                proof (cases "required \<subseteq> set (map snd (table_info (?db) table))")
                  case True
                  note facts = facts True
                  show ?thesis
                  proof (cases "raises ?db (Close)")
                    case (Some m)
                    with facts assms show ?thesis by (intro close [of m]) (simp_all add: defs)
                  next
                    case None
                    note facts = facts None
                    from facts assms show ?thesis by (intro pass) (simp_all add: defs)
                  qed
                next
                  case False
                  with facts assms show ?thesis by (intro missing) (simp_all add: defs)
                qed
              qed
            qed
          next
            case False
            note facts = facts False
            show ?thesis
            proof (cases "raises ?db (Execute sql_tables [])")
              case (Some m)
              with facts assms show ?thesis by (intro listing [of m]) (simp_all add: defs)
            next
              case None
              note facts = facts None
              show ?thesis
              proof (cases "raises ?db (Fetchall)")
                case (Some m)
                with facts assms show ?thesis by (intro fetchall_tables [of m]) (simp_all add: defs)
              next
                case None
                note facts = facts None
                from facts assms show ?thesis by (intro no_table) (simp_all add: defs)
              qed
            qed
          qed
        qed
      qed
    qed
  qed
qed

lemma no_db_call_when_missing:
  "\<not> path_exists w path \<Longrightarrow> Sqlite3 c \<notin> set (fst (script path table required hash w))"
  by (auto simp: script_not_exists)

lemma db_calls_map_Print:
  "concat (map ((\<lambda>e. case e of Sqlite3 c \<Rightarrow> [c] | _ \<Rightarrow> []) \<circ> (\<lambda>x. Print (f x))) xs) = []"
  by (induction xs) simp_all

lemma db_calls_map_Print_id:
  "concat (map ((\<lambda>e. case e of Sqlite3 c \<Rightarrow> [c] | _ \<Rightarrow> []) \<circ> Print) xs) = []"
  by (induction xs) simp_all



lemma found_lines_Cons:
  "found_lines ((root, dirs, files) # ts) =
     [''  Found: '' @ os_path_join root f. f \<leftarrow> files, endswith f ''.db'' \<or> endswith f ''.sqlite'']
       @ found_lines ts"
  by (simp add: found_lines_def)

lemma found_lines_Nil: "found_lines [] = []"
  by (simp add: found_lines_def)

lemma found_lines_append: "found_lines (xs @ ys) = found_lines xs @ found_lines ys"
  by (simp add: found_lines_def)

lemma found_lines_concat: "found_lines (concat xss) = concat (map found_lines xss)"
  by (induction xss) (simp_all add: found_lines_append found_lines_Nil)

lemma listable_File: "listable e = File \<longleftrightarrow> e = File"
  by (cases e) simp_all

lemma files_listable:
  "[n. (n, e) \<leftarrow> map (\<lambda>(n, e). (n, listable e)) entries, e = File]
     = [n. (n, e) \<leftarrow> entries, e = File]"
  by (induction entries) (simp_all add: listable_File split: prod.splits)

lemma below_listable:
  assumes "\<And>n e r. (n, e) \<in> set entries \<Longrightarrow>
             found_lines (os_walk r (listable e)) = found_lines (os_walk r e)"
  shows "concat (map (\<lambda>(n, e). found_lines (os_walk (os_path_join root n) e))
                  [(n, e) \<leftarrow> map (\<lambda>(n, e). (n, listable e)) entries. e \<noteq> File])
       = concat (map (\<lambda>(n, e). found_lines (os_walk (os_path_join root n) e))
                  [(n, e) \<leftarrow> entries. e \<noteq> File])"
  using assms
proof (induction entries)
  case Nil
  show ?case by simp
next
  case (Cons x entries)
  obtain n e where x: "x = (n, e)" by (cases x)
  have here: "found_lines (os_walk (os_path_join root n) (listable e))
                = found_lines (os_walk (os_path_join root n) e)"
    using Cons.prems [of n e] by (simp add: x)
  have rest: "concat (map (\<lambda>(n, e). found_lines (os_walk (os_path_join root n) e))
                  [(n, e) \<leftarrow> map (\<lambda>(n, e). (n, listable e)) entries. e \<noteq> File])
       = concat (map (\<lambda>(n, e). found_lines (os_walk (os_path_join root n) e))
                  [(n, e) \<leftarrow> entries. e \<noteq> File])"
  proof (rule Cons.IH)
    fix n e r
    assume "(n, e) \<in> set entries"
    then have "(n, e) \<in> set (x # entries)" by simp
    then show "found_lines (os_walk r (listable e)) = found_lines (os_walk r e)"
      by (rule Cons.prems)
  qed
  show ?case
    by (simp add: x listable_File here rest)
qed

lemma found_walk_Dir:
  "found_lines (os_walk root (Dir entries)) =
     found_lines [(root, [], [n. (n, e) \<leftarrow> entries, e = File])]
     @ concat (map (\<lambda>(n, e). found_lines (os_walk (os_path_join root n) e))
                  [(n, e) \<leftarrow> entries. e \<noteq> File])"
proof -
  have "found_lines \<circ> (\<lambda>(n, e). os_walk (os_path_join root n) e)
          = (\<lambda>(n, e). found_lines (os_walk (os_path_join root n) e))"
    by (auto simp: fun_eq_iff)
  then show ?thesis
    by (simp add: found_lines_Cons found_lines_Nil found_lines_concat)
qed

lemma found_lines_listable:
  "found_lines (os_walk root (listable t)) = found_lines (os_walk root t)"
proof (induction t arbitrary: root)
  case File
  show ?case by simp
next
  case Dir_unreadable
  show ?case by (simp add: found_lines_Cons found_lines_Nil)
next
  case (Dir entries)
  have below: "found_lines (os_walk r (listable e)) = found_lines (os_walk r e)"
    if "(n, e) \<in> set entries" for n e r
    using that Dir [of "(n, e)" e r] by simp
  show ?case
    by (simp only: listable.simps found_walk_Dir files_listable below_listable [OF below])
qed

section \<open>The table and its columns\<close>

text \<open>
  Claim C1. For a database that holds the table \<open>users\<close>, read without a database
  error: when the column names observed for \<open>users\<close> include \<open>id\<close>, \<open>email\<close> and
  \<open>created_at\<close>, the run prints the PASS line naming the table, then all observed column
  names, sorted and joined with a comma and a space, and exits with code 0. When a
  required column is absent, the run prints a FAIL line whose braces list exactly the
  required names that are not observed, each once, and exits with code 1.
\<close>

theorem columns_pass_or_fail:
  assumes "path_exists w (DB_PATH w)" and "no_error (opened w)"
    and "''users'' \<in> set (map fst (tables (opened w)))"
  shows "(REQUIRED_COLUMNS \<subseteq> observed (opened w) \<longrightarrow>
            stdout (main hash w) =
              [''Checking: '' @ DB_PATH w, ''PASS: Table 'users' exists with required columns'',
               ''Columns: '' @ join '', '' (sorted_list_of_set (observed (opened w)))]
            \<and> exit_code (main hash w) = Exit 0)
       \<and> (\<not> REQUIRED_COLUMNS \<subseteq> observed (opened w) \<longrightarrow>
            stdout (main hash w) =
              [''Checking: '' @ DB_PATH w,
               ''FAIL: Missing columns in users: {''
                  @ join '', '' (map repr_str (set_iter hash (REQUIRED_COLUMNS - observed (opened w))))
                  @ ''}'',
               ''Available columns: '' @ repr_set hash (observed (opened w))]
            \<and> set (set_iter hash (REQUIRED_COLUMNS - observed (opened w)))
                 = REQUIRED_COLUMNS - observed (opened w)
            \<and> distinct (set_iter hash (REQUIRED_COLUMNS - observed (opened w)))
            \<and> exit_code (main hash w) = Exit 1)"
proof -
  have table: "REQUIRED_TABLE \<in> set (select_name (opened w))"
    using assms(3) by (simp add: REQUIRED_TABLE_def select_name_def)
  have fin: "finite (REQUIRED_COLUMNS - observed (opened w))"
    by (simp add: REQUIRED_COLUMNS_def)
  show ?thesis
    using set_iter_finite [OF fin, of hash]
    by (auto simp: main_columns [OF assms(1,2) table] stdout_def exit_code_def
        REQUIRED_TABLE_def quoted_def repr_set_def)
qed

theorem columns_pass_or_fail_witness:
  "path_exists (world_with db_full) (DB_PATH (world_with db_full))
   \<and> no_error (opened (world_with db_full))
   \<and> ''users'' \<in> set (map fst (tables (opened (world_with db_full))))
   \<and> REQUIRED_COLUMNS \<subseteq> observed (opened (world_with db_full))
   \<and> stdout (main hash_a (world_with db_full)) =
       [''Checking: data/app.db'', ''PASS: Table 'users' exists with required columns'',
        ''Columns: created_at, email, id, name'']
   \<and> exit_code (main hash_a (world_with db_full)) = Exit 0
   \<and> \<not> REQUIRED_COLUMNS \<subseteq> observed (opened (world_with db_short))
   \<and> stdout (main hash_b (world_with db_short)) =
       [''Checking: data/app.db'',
        ''FAIL: Missing columns in users: {'' @ quoted ''email'' @ '', '' @ quoted ''created_at'' @ ''}'',
        ''Available columns: {'' @ quoted ''id'' @ '', '' @ quoted ''name'' @ ''}'']
   \<and> exit_code (main hash_b (world_with db_short)) = Exit 1"
proof -
  have full: "''users'' \<in> set (map fst (tables db_full))"
    and short: "''users'' \<in> set (map fst (tables db_short))"
    by (simp_all add: db_full_def db_short_def)
  have sub: "REQUIRED_COLUMNS \<subseteq> observed db_full"
    and columns: "join '', '' (sorted_list_of_set (observed db_full)) = ''created_at, email, id, name''"
    by code_simp+
  have nsub: "\<not> REQUIRED_COLUMNS \<subseteq> observed db_short"
    and missing: "set_iter hash_b (REQUIRED_COLUMNS - observed db_short) = [''email'', ''created_at'']"
    and available: "repr_set hash_b (observed db_short) = ''{'' @ quoted ''id'' @ '', '' @ quoted ''name'' @ ''}''"
    by code_simp+
  have reprs: "repr_str ''email'' = quoted ''email''" "repr_str ''created_at'' = quoted ''created_at''"
    by code_simp+
  from columns_pass_or_fail [of "world_with db_full" hash_a]
    columns_pass_or_fail [of "world_with db_short" hash_b]
    full short sub columns nsub missing available reprs
  show ?thesis
    by (simp add: world_with_simps no_error_examples)
qed

text \<open>
  Claim C2. For a database that exists and is read without a database error, and that
  holds no table named \<open>users\<close>: the run prints the missing-table FAIL line, a blank
  line and \<open>Available tables:\<close>, then one line for every table name of the catalog,
  none if the catalog is empty, and exits with code 1.
\<close>

theorem missing_table_lists_tables:
  assumes "path_exists w (DB_PATH w)" and "no_error (opened w)"
    and "''users'' \<notin> set (map fst (tables (opened w)))"
  shows "stdout (main hash w) =
           [''Checking: '' @ DB_PATH w, ''FAIL: Table 'users' does not exist'', '''',
            ''Available tables:''] @ map (\<lambda>n. ''  - '' @ n) (map fst (tables (opened w)))
         \<and> exit_code (main hash w) = Exit 1"
proof -
  have table: "REQUIRED_TABLE \<notin> set (select_name (opened w))"
    using assms(3) by (simp add: REQUIRED_TABLE_def select_name_def)
  show ?thesis
    by (simp add: main_no_table [OF assms(1,2) table] stdout_def exit_code_def
        REQUIRED_TABLE_def quoted_def select_name_def stdout_map_Print comp_def)
qed

theorem missing_table_lists_tables_witness:
  "path_exists (world_with db_accounts) (DB_PATH (world_with db_accounts))
   \<and> no_error (opened (world_with db_accounts))
   \<and> ''users'' \<notin> set (map fst (tables (opened (world_with db_accounts))))
   \<and> stdout (main hash_a (world_with db_accounts)) =
       [''Checking: data/app.db'', ''FAIL: Table 'users' does not exist'', '''',
        ''Available tables:'', ''  - accounts'']
   \<and> exit_code (main hash_a (world_with db_accounts)) = Exit 1"
proof -
  have tables: "map fst (tables db_accounts) = [''accounts'']"
    by (simp add: db_accounts_def)
  from missing_table_lists_tables [of "world_with db_accounts" hash_a] tables
  show ?thesis
    by (simp add: world_with_simps no_error_examples)
qed

section \<open>The database file is missing\<close>

text \<open>
  Claim C3. Whatever \<open>DB_PATH\<close> is set to, or with the default \<open>data/app.db\<close>: when
  nothing exists at the path, the run prints \<open>FAIL: Database not found at <path>\<close> and
  exits with code 1, whatever the working directory holds. The scan that follows adds a
  \<open>Found\<close> line for every file the walk yields whose name ends in \<open>.db\<close> or \<open>.sqlite\<close>,
  and nothing else: the exit code stays 1 and the database is never touched.
\<close>

theorem missing_file_fails:
  assumes "\<not> path_exists w (DB_PATH w)"
  shows "stdout (main hash w) =
           [''Checking: '' @ DB_PATH w, ''FAIL: Database not found at '' @ DB_PATH w, '''',
            ''Looking for database files...''] @ found_lines (os_walk ''.'' (cwd w))
         \<and> exit_code (main hash w) = Exit 1
         \<and> calls (main hash w) = [Os_path_exists (DB_PATH w), Os_walk ''.'']"
  using assms
  by (simp add: main_def script_not_exists stdout_def exit_code_def calls_def
      stdout_map_Print_id filter_empty_conv)

theorem missing_file_fails_witness:
  "\<not> path_exists world_missing (DB_PATH world_missing)
   \<and> stdout (main hash_a world_missing) =
       [''Checking: data/app.db'', ''FAIL: Database not found at data/app.db'', '''',
        ''Looking for database files...'', ''  Found: ./old/app.db'',
        ''  Found: ./old/cache.sqlite'']
   \<and> exit_code (main hash_a world_missing) = Exit 1"
proof -
  have missing: "\<not> path_exists world_missing (DB_PATH world_missing)"
    by (simp add: world_missing_def nothing_exists_def)
  have path: "DB_PATH world_missing = ''data/app.db''"
    by (simp add: DB_PATH_def world_missing_def no_environ_def)
  have scan: "found_lines (os_walk ''.'' (cwd world_missing))
                = [''  Found: ./old/app.db'', ''  Found: ./old/cache.sqlite'']"
    by code_simp
  from missing_file_fails [OF missing, of hash_a] missing path scan
  show ?thesis by simp
qed

section \<open>Database errors\<close>

text \<open>
  Claim C4. A call on the database that the run makes and that raises
  \<open>sqlite3.Error\<close>, be it while opening the connection, querying the catalog or
  reading the columns, ends in the one handler: the next and last thing the run does is
  to print \<open>FAIL: Database error:\<close> followed by the message of the error as it is, and
  the exit code is 1. The error is its own condition: besides the \<open>Checking\<close> line
  the output then holds this line alone, or after the three lines of the missing-table
  report when the listing of the tables is what failed, or after the two PASS lines when
  the release of the connection is what failed; it never holds a missing-columns line.
\<close>

theorem database_error_is_reported:
  assumes "Sqlite3 c \<in> set (fst (main hash w))" and "raises (opened w) c = Some m"
  shows "(\<exists>es. fst (main hash w) = es @ [Sqlite3 c, Print (''FAIL: Database error: '' @ m)])
       \<and> exit_code (main hash w) = Exit 1
       \<and> (stdout (main hash w) = [''Checking: '' @ DB_PATH w, ''FAIL: Database error: '' @ m]
          \<or> stdout (main hash w) =
               [''Checking: '' @ DB_PATH w, ''FAIL: Table 'users' does not exist'', '''',
                ''Available tables:'', ''FAIL: Database error: '' @ m]
          \<or> stdout (main hash w) =
               [''Checking: '' @ DB_PATH w, ''PASS: Table 'users' exists with required columns'',
                ''Columns: '' @ join '', '' (sorted_list_of_set (observed (opened w))),
                ''FAIL: Database error: '' @ m])"
proof -
  have "path_exists w (DB_PATH w)"
    using assms(1) no_db_call_when_missing [of w "DB_PATH w" c] by (auto simp: main_def)
  then show ?thesis
    using assms unfolding main_def opened_def observed_def
    by (cases rule: script_cases [where table = REQUIRED_TABLE and required = REQUIRED_COLUMNS])
      (auto simp: stdout_def exit_code_def REQUIRED_TABLE_def quoted_def)
qed

theorem database_error_is_reported_witness:
  "Sqlite3 (Execute sql_table_named [''users'']) \<in> set (fst (main hash_a (world_with db_corrupt)))
   \<and> raises (opened (world_with db_corrupt)) (Execute sql_table_named [''users''])
       = Some ''file is not a database''
   \<and> stdout (main hash_a (world_with db_corrupt)) =
       [''Checking: data/app.db'', ''FAIL: Database error: file is not a database'']
   \<and> exit_code (main hash_a (world_with db_corrupt)) = Exit 1"
proof -
  have made: "Sqlite3 (Execute sql_table_named [''users'']) \<in> set (fst (main hash_a (world_with db_corrupt)))"
    by code_simp
  have raised: "raises (opened (world_with db_corrupt)) (Execute sql_table_named [''users''])
       = Some ''file is not a database''"
    by (simp add: world_with_simps db_corrupt_def raise_on_execute_def)
  have out: "stdout (main hash_a (world_with db_corrupt)) =
       [''Checking: data/app.db'', ''FAIL: Database error: file is not a database'']"
    by code_simp
  from database_error_is_reported [OF made raised] made raised out
  show ?thesis by simp
qed

section \<open>Running the checker twice\<close>

text \<open>
  Two runs in the same environment are two processes: they see the same \<open>world\<close>, and
  each has its own string hashing, so they are \<open>main h1 w\<close> and \<open>main h2 w\<close>.
\<close>




section \<open>The statements sent to the database\<close>

text \<open>
  Claim C6. The lookup of the table in the catalog binds the table name as a parameter:
  the text of the statement is the same for every table name, and the name travels
  beside it. The introspection of the columns is different: its text is built from the
  table name, and it has no parameters. These two and the listing of the tables are the
  only statements the script executes. The properties are stated for the script with any
  table name in the place of \<open>REQUIRED_TABLE\<close>.
\<close>

theorem table_name_bound_then_interpolated:
  "(\<forall>sql params. Execute sql params \<in> set (db_calls (script path table required hash w)) \<longrightarrow>
        sql = ''SELECT name FROM sqlite_master WHERE type='table' AND name=?'' \<and> params = [table]
      \<or> sql = sql_tables \<and> params = []
      \<or> sql = ''PRAGMA table_info('' @ table @ '')'' \<and> params = [])
   \<and> (path_exists w path \<and> raises (sqlite_file w path) (Connect path) = None
        \<and> raises (sqlite_file w path) Cursor = None \<longrightarrow>
       db_calls (script path table required hash w) ! 2 =
         Execute ''SELECT name FROM sqlite_master WHERE type='table' AND name=?'' [table])
   \<and> (path_exists w path \<and> no_error (sqlite_file w path)
        \<and> table \<in> set (map fst (tables (sqlite_file w path))) \<longrightarrow>
       db_calls (script path table required hash w) ! 4 =
         Execute (''PRAGMA table_info('' @ table @ '')'') [])"
proof (cases "path_exists w path")
  case False
  then show ?thesis
    by (simp add: script_not_exists db_calls_def db_calls_map_Print_id)
next
  case True
  then show ?thesis
    by (cases rule: script_cases [where table = table and required = required])
      (auto simp: db_calls_def db_calls_map_Print sql_table_named_def no_error_def
        select_name_def)
qed

theorem table_name_bound_then_interpolated_witness:
  "db_calls (script ''data/app.db'' ''accounts'' {''id''} hash_a (world_with db_accounts)) ! 2 =
     Execute ''SELECT name FROM sqlite_master WHERE type='table' AND name=?'' [''accounts'']
   \<and> db_calls (script ''data/app.db'' ''accounts'' {''id''} hash_a (world_with db_accounts)) ! 4 =
     Execute ''PRAGMA table_info(accounts)'' []
   \<and> db_calls (main hash_a (world_with db_full)) ! 2 =
     Execute ''SELECT name FROM sqlite_master WHERE type='table' AND name=?'' [''users'']
   \<and> db_calls (main hash_a (world_with db_full)) ! 4 =
     Execute ''PRAGMA table_info(users)'' []"
proof -
  have accounts: "''accounts'' \<in> set (map fst (tables db_accounts))"
    and users: "''users'' \<in> set (map fst (tables db_full))"
    by (simp_all add: db_accounts_def db_full_def)
  have quiet: "raises db_accounts c = None" "raises db_full c = None" for c
    by (simp_all add: db_accounts_def db_full_def no_raise_def)
  have sqlite: "sqlite_file (world_with db) p = db" for db p
    by (simp add: world_with_def)
  from table_name_bound_then_interpolated
         [of "''data/app.db''" "''accounts''" "{''id''}" hash_a "world_with db_accounts"]
    table_name_bound_then_interpolated
         [of "''data/app.db''" REQUIRED_TABLE REQUIRED_COLUMNS hash_a "world_with db_full"]
    accounts users quiet
  show ?thesis
    by (auto simp: world_with_simps no_error_examples sqlite main_def REQUIRED_TABLE_def)
qed

section \<open>Directories the scan cannot read\<close>

text \<open>
  Claim C7 says that a read error in the scan, such as a permissions failure while a
  subdirectory is listed, can escape as an unhandled failure, because nothing contains
  it. The script indeed puts no handler around the scan and passes no \<open>onerror\<close> to
  \<open>os.walk\<close>; but \<open>os.walk\<close> itself ignores the error of a listing when \<open>onerror\<close>
  is \<open>None\<close>. Below, \<open>secret\<close> cannot be listed: the walk names it among the
  subdirectories of the working directory, yields nothing for it and goes on to \<open>old\<close>,
  and the run ends as every run on this path does, with exit code 1.
\<close>

theorem unreadable_directory_does_not_escape:
  "cwd world_missing =
     Dir [(''secret'', Dir_unreadable), (''notes.txt'', File),
          (''old'', Dir [(''app.db'', File), (''readme.md'', File), (''cache.sqlite'', File)])]
   \<and> os_walk ''.'' (cwd world_missing) =
       [(''.'', [''secret'', ''old''], [''notes.txt'']),
        (''./old'', [], [''app.db'', ''readme.md'', ''cache.sqlite''])]
   \<and> stdout (main hash_a world_missing) =
       [''Checking: data/app.db'', ''FAIL: Database not found at data/app.db'', '''',
        ''Looking for database files...'', ''  Found: ./old/app.db'',
        ''  Found: ./old/cache.sqlite'']
   \<and> exit_code (main hash_a world_missing) = Exit 1"
  by code_simp

text \<open>
  Claim C7, as amended. On the missing-file path a directory that cannot be listed makes
  no difference to the run other than that its files are not found: the run is the same,
  event for event, as with an empty directory in its place, and it ends with exit code 1.
  No error of the scan escapes.
\<close>

theorem scan_passes_over_unreadable:
  assumes "\<not> path_exists w (DB_PATH w)"
  shows "main hash w = main hash (w\<lparr>cwd := listable (cwd w)\<rparr>)
       \<and> exit_code (main hash w) = Exit 1"
proof -
  have same: "DB_PATH (w\<lparr>cwd := listable (cwd w)\<rparr>) = DB_PATH w"
    by (simp add: DB_PATH_def)
  show ?thesis
    using assms
    by (simp add: main_def same script_not_exists found_lines_listable exit_code_def)
qed

theorem scan_passes_over_unreadable_witness:
  "\<not> path_exists world_missing (DB_PATH world_missing)
   \<and> listable (cwd world_missing) =
       Dir [(''secret'', Dir []), (''notes.txt'', File),
            (''old'', Dir [(''app.db'', File), (''readme.md'', File), (''cache.sqlite'', File)])]
   \<and> main hash_a world_missing = main hash_a (world_missing\<lparr>cwd := listable (cwd world_missing)\<rparr>)
   \<and> exit_code (main hash_a world_missing) = Exit 1"
proof -
  have missing: "\<not> path_exists world_missing (DB_PATH world_missing)"
    by (simp add: world_missing_def nothing_exists_def)
  have tree: "listable (cwd world_missing) =
       Dir [(''secret'', Dir []), (''notes.txt'', File),
            (''old'', Dir [(''app.db'', File), (''readme.md'', File), (''cache.sqlite'', File)])]"
    by (simp add: world_missing_def)
  from scan_passes_over_unreadable [OF missing, of hash_a] missing tree
  show ?thesis by blast
qed

section \<open>Names are compared exactly\<close>

text \<open>
  Claim C8. Table and column names are compared as strings, letter case included. When
  the catalog has a table whose name differs from \<open>users\<close> in letter case only, and no
  table \<open>users\<close>, the run takes the missing-table path and lists that table. When the
  table \<open>users\<close> has a column whose name differs from a required name in letter case
  only, and not the required name itself, that required name is among the missing
  columns of the FAIL line. SQLite itself would find the table under either spelling,
  as \<open>table_info\<close> does.
\<close>

theorem names_compared_exactly:
  assumes "path_exists w (DB_PATH w)" and "no_error (opened w)"
  shows "(n \<in> set (map fst (tables (opened w))) \<and> map ascii_lower n = ''users''
            \<and> ''users'' \<notin> set (map fst (tables (opened w))) \<longrightarrow>
          take 2 (stdout (main hash w)) =
            [''Checking: '' @ DB_PATH w, ''FAIL: Table 'users' does not exist'']
          \<and> ''  - '' @ n \<in> set (stdout (main hash w))
          \<and> exit_code (main hash w) = Exit 1)
       \<and> (''users'' \<in> set (map fst (tables (opened w))) \<and> c \<in> REQUIRED_COLUMNS
            \<and> c' \<in> observed (opened w) \<and> map ascii_lower c' = c
            \<and> c \<notin> observed (opened w) \<longrightarrow>
          take 2 (stdout (main hash w)) =
            [''Checking: '' @ DB_PATH w,
             ''FAIL: Missing columns in users: {''
                @ join '', '' (map repr_str (set_iter hash (REQUIRED_COLUMNS - observed (opened w))))
                @ ''}'']
          \<and> c \<in> set (set_iter hash (REQUIRED_COLUMNS - observed (opened w)))
          \<and> exit_code (main hash w) = Exit 1)"
proof (intro conjI impI)
  assume a: "n \<in> set (map fst (tables (opened w))) \<and> map ascii_lower n = ''users''
            \<and> ''users'' \<notin> set (map fst (tables (opened w)))"
  then have table: "REQUIRED_TABLE \<notin> set (select_name (opened w))"
    by (simp add: REQUIRED_TABLE_def select_name_def)
  note run = main_no_table [OF assms table]
  show "take 2 (stdout (main hash w)) =
            [''Checking: '' @ DB_PATH w, ''FAIL: Table 'users' does not exist'']"
    by (simp add: run stdout_def REQUIRED_TABLE_def quoted_def)
  show "''  - '' @ n \<in> set (stdout (main hash w))"
    using a by (simp add: run stdout_def select_name_def stdout_map_Print comp_def) force
  show "exit_code (main hash w) = Exit 1"
    by (simp add: run exit_code_def)
next
  assume a: "''users'' \<in> set (map fst (tables (opened w))) \<and> c \<in> REQUIRED_COLUMNS
            \<and> c' \<in> observed (opened w) \<and> map ascii_lower c' = c
            \<and> c \<notin> observed (opened w)"
  then have table: "REQUIRED_TABLE \<in> set (select_name (opened w))"
    by (simp add: REQUIRED_TABLE_def select_name_def)
  from a have nsub: "\<not> REQUIRED_COLUMNS \<subseteq> observed (opened w)"
    by auto
  have fin: "finite (REQUIRED_COLUMNS - observed (opened w))"
    by (simp add: REQUIRED_COLUMNS_def)
  note run = main_columns [OF assms table]
  show "take 2 (stdout (main hash w)) =
            [''Checking: '' @ DB_PATH w,
             ''FAIL: Missing columns in users: {''
                @ join '', '' (map repr_str (set_iter hash (REQUIRED_COLUMNS - observed (opened w))))
                @ ''}'']"
    using nsub by (auto simp: run stdout_def REQUIRED_TABLE_def repr_set_def)
  show "c \<in> set (set_iter hash (REQUIRED_COLUMNS - observed (opened w)))"
    using a set_iter_finite [OF fin, of hash] by simp
  show "exit_code (main hash w) = Exit 1"
    using nsub by (simp add: run exit_code_def)
qed

theorem names_compared_exactly_witness:
  "''Users'' \<in> set (map fst (tables (opened (world_with db_Users))))
   \<and> map ascii_lower ''Users'' = ''users''
   \<and> table_info db_Users ''users'' = [(0, ''id''), (1, ''email''), (2, ''created_at'')]
   \<and> stdout (main hash_a (world_with db_Users)) =
        [''Checking: data/app.db'', ''FAIL: Table 'users' does not exist'', '''',
         ''Available tables:'', ''  - Users'']
   \<and> exit_code (main hash_a (world_with db_Users)) = Exit 1
   \<and> ''Email'' \<in> observed (opened (world_with db_Email))
   \<and> map ascii_lower ''Email'' = ''email''
   \<and> take 2 (stdout (main hash_a (world_with db_Email))) =
        [''Checking: data/app.db'', ''FAIL: Missing columns in users: {'' @ quoted ''email'' @ ''}'']
   \<and> exit_code (main hash_a (world_with db_Email)) = Exit 1"
proof -
  have lower: "map ascii_lower ''Users'' = ''users''" "map ascii_lower ''Email'' = ''email''"
    by code_simp+
  have Users: "''Users'' \<in> set (map fst (tables db_Users))"
    "''users'' \<notin> set (map fst (tables db_Users))"
    "table_info db_Users ''users'' = [(0, ''id''), (1, ''email''), (2, ''created_at'')]"
    by code_simp+
  have Email: "''users'' \<in> set (map fst (tables db_Email))" "''email'' \<in> REQUIRED_COLUMNS"
    "''Email'' \<in> observed db_Email" "''email'' \<notin> observed db_Email"
    "set_iter hash_a (REQUIRED_COLUMNS - observed db_Email) = [''email'']"
    "repr_str ''email'' = quoted ''email''"
    by code_simp+
  have rest: "stdout (main hash_a (world_with db_Users)) =
        [''Checking: data/app.db'', ''FAIL: Table 'users' does not exist'', '''',
         ''Available tables:'', ''  - Users'']"
    by code_simp
  from names_compared_exactly [of "world_with db_Users" "''Users''" hash_a "''email''" "''Email''"]
    names_compared_exactly [of "world_with db_Email" "''Users''" hash_a "''email''" "''Email''"]
    lower Users Email rest
  show ?thesis
    by (simp add: world_with_simps no_error_examples)
qed

section \<open>A path that is no database\<close>

text \<open>
  Claim C9. When something exists at the path, the run passes the existence check and
  opens a connection; it never prints the not-found line and never scans the directory.
  When that entry is no usable database, so that opening it or reading its catalog
  raises, as happens for a directory, the output is the \<open>Checking\<close> line and the
  \<open>FAIL: Database error\<close> line with the message, and the exit code is 1.
\<close>

theorem unusable_file_is_database_error:
  assumes "path_exists w (DB_PATH w)"
  shows "Sqlite3 (Connect (DB_PATH w)) \<in> set (fst (main hash w))
       \<and> Os_walk ''.'' \<notin> set (fst (main hash w))
       \<and> ''FAIL: Database not found at '' @ DB_PATH w \<notin> set (stdout (main hash w))
       \<and> (first_error (opened w)
             [Connect (DB_PATH w), Cursor, Execute sql_table_named [''users''], Fetchone] = Some m
           \<longrightarrow> stdout (main hash w) =
                 [''Checking: '' @ DB_PATH w, ''FAIL: Database error: '' @ m]
               \<and> exit_code (main hash w) = Exit 1)"
  using assms unfolding main_def opened_def
  by (cases rule: script_cases [where table = REQUIRED_TABLE and required = REQUIRED_COLUMNS])
    (auto simp: stdout_def exit_code_def REQUIRED_TABLE_def)

theorem unusable_file_is_database_error_witness:
  "path_exists (world_with db_directory) (DB_PATH (world_with db_directory))
   \<and> first_error (opened (world_with db_directory))
        [Connect (DB_PATH (world_with db_directory)), Cursor,
         Execute sql_table_named [''users''], Fetchone] = Some ''unable to open database file''
   \<and> fst (main hash_a (world_with db_directory)) =
        [Print ''Checking: data/app.db'', Os_path_exists ''data/app.db'',
         Sqlite3 (Connect ''data/app.db''),
         Print ''FAIL: Database error: unable to open database file'']
   \<and> exit_code (main hash_a (world_with db_directory)) = Exit 1"
proof -
  have err: "first_error db_directory
        [Connect ''data/app.db'', Cursor, Execute sql_table_named [''users''], Fetchone]
          = Some ''unable to open database file''"
    by (simp add: db_directory_def raise_on_connect_def)
  have events: "fst (main hash_a (world_with db_directory)) =
        [Print ''Checking: data/app.db'', Os_path_exists ''data/app.db'',
         Sqlite3 (Connect ''data/app.db''),
         Print ''FAIL: Database error: unable to open database file'']"
    by code_simp
  from unusable_file_is_database_error [of "world_with db_directory" hash_a
      "''unable to open database file''"] err events
  show ?thesis by (simp add: world_with_simps)
qed

section \<open>The release of the connection\<close>

text \<open>
  Claim C10. The release of the connection comes after the PASS lines and inside the
  \<open>try\<close>: the run calls \<open>close\<close> exactly when it has printed the PASS line, and then
  directly after the \<open>Columns\<close> line. If \<open>close\<close> raises, the handler prints its
  \<open>FAIL: Database error\<close> line after the two PASS lines and the exit code is 1, so a
  PASS line in the output does not by itself give exit code 0. On the FAIL paths, the
  runs that end with exit code 1 for another reason than this failure of \<open>close\<close>
  itself, \<open>close\<close> is never called.
\<close>

theorem release_follows_pass:
  "(Sqlite3 Close \<in> set (fst (main hash w))
      \<longleftrightarrow> ''PASS: Table 'users' exists with required columns'' \<in> set (stdout (main hash w)))
   \<and> (Sqlite3 Close \<in> set (fst (main hash w)) \<longrightarrow>
        (\<exists>es es'. fst (main hash w) =
           es @ [Print ''PASS: Table 'users' exists with required columns'',
                 Print (''Columns: '' @ join '', '' (sorted_list_of_set (observed (opened w)))),
                 Sqlite3 Close] @ es'
           \<and> Sqlite3 Close \<notin> set es
           \<and> (case raises (opened w) Close of
                 None \<Rightarrow> es' = [] \<and> exit_code (main hash w) = Exit 0
               | Some m \<Rightarrow> es' = [Print (''FAIL: Database error: '' @ m)]
                            \<and> exit_code (main hash w) = Exit 1)))
   \<and> (Sqlite3 Close \<in> set (fst (main hash w)) \<and> raises (opened w) Close = Some m \<longrightarrow>
        stdout (main hash w) =
          [''Checking: '' @ DB_PATH w, ''PASS: Table 'users' exists with required columns'',
           ''Columns: '' @ join '', '' (sorted_list_of_set (observed (opened w))),
           ''FAIL: Database error: '' @ m]
        \<and> exit_code (main hash w) = Exit 1)
   \<and> (exit_code (main hash w) = Exit 1 \<and> raises (opened w) Close = None \<longrightarrow>
        Sqlite3 Close \<notin> set (fst (main hash w)))"
proof (cases "path_exists w (DB_PATH w)")
  case False
  then show ?thesis
    by (auto simp: main_def script_not_exists stdout_def stdout_map_Print_id found_lines_def)
next
  case True
  then show ?thesis
    unfolding main_def opened_def observed_def
    by (cases rule: script_cases [where table = REQUIRED_TABLE and required = REQUIRED_COLUMNS])
      (auto simp: stdout_def exit_code_def REQUIRED_TABLE_def quoted_def)
qed

theorem release_follows_pass_witness:
  "Sqlite3 Close \<in> set (fst (main hash_a (world_with db_close_fails)))
   \<and> raises (opened (world_with db_close_fails)) Close = Some ''unable to close''
   \<and> stdout (main hash_a (world_with db_close_fails)) =
        [''Checking: data/app.db'', ''PASS: Table 'users' exists with required columns'',
         ''Columns: created_at, email, id'', ''FAIL: Database error: unable to close'']
   \<and> exit_code (main hash_a (world_with db_close_fails)) = Exit 1
   \<and> exit_code (main hash_a (world_with db_short)) = Exit 1
   \<and> raises (opened (world_with db_short)) Close = None
   \<and> Sqlite3 Close \<notin> set (fst (main hash_a (world_with db_short)))"
proof -
  have made: "Sqlite3 Close \<in> set (fst (main hash_a (world_with db_close_fails)))"
    by code_simp
  have raised: "raises db_close_fails Close = Some ''unable to close''"
    by (simp add: db_close_fails_def raise_on_close_def)
  have columns: "join '', '' (sorted_list_of_set (observed db_close_fails)) = ''created_at, email, id''"
    by code_simp
  have failed: "exit_code (main hash_a (world_with db_short)) = Exit 1"
    by code_simp
  have quiet: "raises db_short Close = None"
    by (simp add: db_short_def no_raise_def)
  from release_follows_pass [of hash_a "world_with db_close_fails" "''unable to close''"]
    release_follows_pass [of hash_a "world_with db_short" "''unable to close''"]
    made raised columns failed quiet
  show ?thesis by (auto simp: world_with_simps)
qed

end
